theory Spec2Isabelle
  imports Main "HOL-Library.Sublist"
begin

section \<open>JavaScript values\<close>

text \<open>
  The values the storefront handles: what a JSON response body, a route parameter, a
  state variable or a property read can hold. Numbers are the integers (product ids,
  prices in the smallest currency unit, quantities); objects are property lists.
\<close>

datatype jsval =
    Undefined
  | Null
  | Bool bool
  | Num int
  | Str string
  | Obj "(string \<times> jsval) list"

text \<open>The conversion to a boolean that \<^verbatim>\<open>if (v)\<close>, \<^verbatim>\<open>!v\<close> and \<^verbatim>\<open>a || b\<close> apply.\<close>

fun truthy :: "jsval \<Rightarrow> bool" where
  "truthy Undefined = False"
| "truthy Null = False"
| "truthy (Bool b) = b"
| "truthy (Num n) = (n \<noteq> 0)"
| "truthy (Str s) = (s \<noteq> [])"
| "truthy (Obj kvs) = True"

text \<open>\<^verbatim>\<open>a || b\<close>\<close>

definition js_or :: "jsval \<Rightarrow> jsval \<Rightarrow> jsval" where
  "js_or a b = (if truthy a then a else b)"

text \<open>
  \<^verbatim>\<open>v?.f\<close>: the property \<open>f\<close> of an object, \<^verbatim>\<open>undefined\<close> when the object has
  none or when \<open>v\<close> is \<^verbatim>\<open>null\<close>, \<^verbatim>\<open>undefined\<close> or a primitive without it.
\<close>

fun opt_get :: "jsval \<Rightarrow> string \<Rightarrow> jsval" where
  "opt_get (Obj kvs) f = (case map_of kvs f of Some v \<Rightarrow> v | None \<Rightarrow> Undefined)"
| "opt_get v f = Undefined"

subsection \<open>Decimal digits and string conversion\<close>

definition digit_char :: "nat \<Rightarrow> char" where
  "digit_char d = ''0123456789'' ! d"

fun digits :: "nat \<Rightarrow> string" where
  "digits n = (if n < 10 then [digit_char n] else digits (n div 10) @ [digit_char (n mod 10)])"

declare digits.simps [simp del]

text \<open>The string an integer number converts to.\<close>

definition int_to_string :: "int \<Rightarrow> string" where
  "int_to_string n = (if n < 0 then CHR ''-'' # digits (nat (- n)) else digits (nat n))"

text \<open>The conversion to a string that \<^verbatim>\<open>'Bearer ' + v\<close> and a template literal apply.\<close>

fun to_string :: "jsval \<Rightarrow> string" where
  "to_string Undefined = ''undefined''"
| "to_string Null = ''null''"
| "to_string (Bool b) = (if b then ''true'' else ''false'')"
| "to_string (Num n) = int_to_string n"
| "to_string (Str s) = s"
| "to_string (Obj kvs) = ''[object Object]''"

section \<open>Prices\<close>

text \<open>
  \<^verbatim>\<open>function formatPrice(p) { return p === 0 ? 'Free' : '$' + (p / 100).toFixed(2); }\<close>

  A price is an integer \<open>p\<close>. The quotient \<^verbatim>\<open>p / 100\<close> is a binary64 number: the
  value \<open>m * 2 ^ k\<close> nearest to the exact quotient whose significand \<open>m\<close> has 53 bits,
  a tie going to the even significand. A finite binary64 number is kept as the pair
  \<open>(m, k)\<close> of integers, so that every step below is integer arithmetic. The quotient
  of an integer of binary64 by 100 is neither subnormal nor infinite, the two cases of
  a division that are left out here.
\<close>

type_synonym binary64 = "int \<times> int"

fun bit_length :: "nat \<Rightarrow> nat" where
  "bit_length n = (if n = 0 then 0 else Suc (bit_length (n div 2)))"

declare bit_length.simps [simp del]

text \<open>The integer nearest to \<open>n / d\<close>, a tie going to the even one.\<close>

definition round_half_even :: "nat \<Rightarrow> nat \<Rightarrow> nat" where
  "round_half_even n d =
     (let q = n div d; r = n mod d
      in if 2 * r < d then q
         else if d < 2 * r then q + 1
         else if even q then q else q + 1)"

text \<open>\<open>d * 2 ^ e \<le> n\<close> for an exponent \<open>e\<close> of either sign.\<close>

definition scaled_le :: "nat \<Rightarrow> int \<Rightarrow> nat \<Rightarrow> bool" where
  "scaled_le d e n = (if 0 \<le> e then d * 2 ^ nat e \<le> n else d \<le> n * 2 ^ nat (- e))"

text \<open>
  \<^verbatim>\<open>a / b\<close> for integers \<open>a\<close> and \<open>b \<noteq> 0\<close>: the binary exponent \<open>e\<close> of the exact
  quotient (\<open>2 ^ e \<le> |a / b| < 2 ^ (e + 1)\<close>) is found from the operands' bit lengths,
  and the quotient is rounded to a multiple of \<open>2 ^ (e - 52)\<close>.
\<close>

definition fdiv :: "int \<Rightarrow> int \<Rightarrow> binary64" where
  "fdiv a b =
     (let n = nat \<bar>a\<bar>; d = nat \<bar>b\<bar>;
          e0 = int (bit_length n) - int (bit_length d);
          e = (if scaled_le d e0 n then e0 else e0 - 1);
          k = e - 52;
          m = (if 0 \<le> k then round_half_even n (d * 2 ^ nat k)
               else round_half_even (n * 2 ^ nat (- k)) d)
      in ((if (a < 0) \<noteq> (b < 0) then - int m else int m), k))"

text \<open>
  \<^verbatim>\<open>Number.prototype.toFixed(f)\<close> on a finite number \<open>x = m * 2 ^ k\<close>: the sign is
  split off; \<open>n\<close> is the integer for which \<open>n / 10 ^ f\<close> is nearest to \<open>|x|\<close>, the larger
  one of two; its digits are padded with zeros to \<open>f + 1\<close> places and the point is set
  before the last \<open>f\<close>. From \<open>10 ^ 21\<close> on the result is the exponential notation of the
  number, which is not part of this development: \<open>None\<close>.
\<close>

definition toFixed :: "binary64 \<Rightarrow> nat \<Rightarrow> string option" where
  "toFixed x f =
     (let m = nat \<bar>fst x\<bar>; k = snd x;
          s = (if fst x < 0 then ''-'' else '''')
      in if (if 0 \<le> k then 10 ^ 21 \<le> m * 2 ^ nat k else 10 ^ 21 * 2 ^ nat (- k) \<le> m)
         then None
         else
           let n = (if 0 \<le> k then m * 2 ^ nat k * 10 ^ f
                    else (2 * m * 10 ^ f + 2 ^ nat (- k)) div (2 * 2 ^ nat (- k)));
               ds = digits n;
               ds' = (if f \<noteq> 0 \<and> length ds \<le> f
                      then replicate (f + 1 - length ds) CHR ''0'' @ ds else ds)
           in Some (s @ (if f \<noteq> 0
                         then take (length ds' - f) ds' @ ''.'' @ drop (length ds' - f) ds'
                         else ds')))"

definition formatPrice :: "int \<Rightarrow> string option" where
  "formatPrice p =
     (if p = 0 then Some ''Free'' else map_option (\<lambda>t. ''$'' @ t) (toFixed (fdiv p 100) 2))"

section \<open>Quantities\<close>

text \<open>
  A quantity is a number of JavaScript, a binary64 value. The cart counts items, so the
  finite quantities kept here are the whole numbers \<open>Fin n\<close>; with them come the three
  special values a sum can be. \<open>Fin n\<close> stands for a number of the code when \<open>n\<close> is an
  integer of binary64: one of at most 53 significant bits, below \<open>2 ^ 1024\<close>.
\<close>

datatype number = Fin int | PosInf | NegInf | NaN

text \<open>
  The integer of at most 53 significant bits nearest to \<open>s\<close>, a tie going to the even
  significand: what binary64 keeps of an exact integer result.
\<close>

definition round53 :: "int \<Rightarrow> int" where
  "round53 s =
     (let n = nat \<bar>s\<bar>
      in if bit_length n \<le> 53 then s
         else
           let d = 2 ^ (bit_length n - 53)
           in sgn s * int (round_half_even n d * d))"

text \<open>
  \<^verbatim>\<open>a + b\<close> on numbers: the exact sum, rounded; a result that reaches \<open>2 ^ 1024\<close> is
  an infinity; the infinities absorb, opposite ones give \<^verbatim>\<open>NaN\<close>, and \<^verbatim>\<open>NaN\<close>
  stays.
\<close>

definition fin_add :: "int \<Rightarrow> int \<Rightarrow> number" where
  "fin_add a b =
     (let s = round53 (a + b)
      in if 2 ^ 1024 \<le> s then PosInf else if s \<le> - (2 ^ 1024) then NegInf else Fin s)"

fun num_add :: "number \<Rightarrow> number \<Rightarrow> number" where
  "num_add NaN b = NaN"
| "num_add a NaN = NaN"
| "num_add PosInf NegInf = NaN"
| "num_add NegInf PosInf = NaN"
| "num_add PosInf b = PosInf"
| "num_add a PosInf = PosInf"
| "num_add NegInf b = NegInf"
| "num_add a NegInf = NegInf"
| "num_add (Fin a) (Fin b) = fin_add a b"

text \<open>\<^verbatim>\<open>a <= b\<close> on numbers: false as soon as one is \<^verbatim>\<open>NaN\<close>.\<close>

fun num_le :: "number \<Rightarrow> number \<Rightarrow> bool" where
  "num_le NaN b = False"
| "num_le a NaN = False"
| "num_le NegInf b = True"
| "num_le a PosInf = True"
| "num_le PosInf b = False"
| "num_le a NegInf = False"
| "num_le (Fin a) (Fin b) = (a \<le> b)"

section \<open>Product ids and strict equality\<close>

text \<open>
  The one comparison of values in the cart is \<^verbatim>\<open>===\<close> (and \<^verbatim>\<open>!==\<close>) on product
  ids. It compares a primitive by its value and an object by its reference, not by its
  properties, so an id that is an object is kept with its reference: two objects with
  the same properties are two ids.
\<close>

datatype ident =
    IdUndefined
  | IdNull
  | IdBool bool
  | IdNum int
  | IdStr string
  | IdObj nat "(string \<times> jsval) list"

text \<open>What \<^verbatim>\<open>===\<close> looks at: the value of a primitive, the reference of an object.\<close>

fun identity :: "ident \<Rightarrow> ident" where
  "identity (IdObj r props) = IdObj r []"
| "identity v = v"

text \<open>\<^verbatim>\<open>a === b\<close>\<close>

definition strict_eq :: "ident \<Rightarrow> ident \<Rightarrow> bool" where
  "strict_eq a b = (identity a = identity b)"

text \<open>The id as a value, as a request body holds it.\<close>

fun ident_val :: "ident \<Rightarrow> jsval" where
  "ident_val IdUndefined = Undefined"
| "ident_val IdNull = Null"
| "ident_val (IdBool b) = Bool b"
| "ident_val (IdNum n) = Num n"
| "ident_val (IdStr s) = Str s"
| "ident_val (IdObj r props) = Obj props"

section \<open>Cart (CartProvider)\<close>

text \<open>
  A product as the catalogue endpoints return it, and a cart line: the product's
  properties with a quantity, \<^verbatim>\<open>{ ...product, qty }\<close>.
\<close>

record product =
  id' :: ident
  title :: string
  description :: string
  price :: int
  coverImageUrl :: string

record line = product +
  qty :: number

text \<open>\<^verbatim>\<open>{ ...product, qty }\<close>\<close>

definition with_qty :: "product \<Rightarrow> number \<Rightarrow> line" where
  "with_qty product q =
     \<lparr>id' = id' product, title = title product, description = description product,
      price = price product, coverImageUrl = coverImageUrl product, qty = q\<rparr>"

text \<open>
  \<^verbatim>\<open>const add = (product, qty = 1) => setItems(prev => {
     const found = prev.find(p => p.id === product.id);
     if (found) return prev.map(p => p.id === product.id ? { ...p, qty: p.qty + qty } : p);
     return [...prev, { ...product, qty }] });\<close>

  The second argument is optional: \<open>None\<close> is the call that leaves it out, and the
  default \<open>1\<close> stands in. A line that \<^verbatim>\<open>find\<close> returns is an object, hence truthy.
\<close>

definition or_default :: "number option \<Rightarrow> number \<Rightarrow> number" where
  "or_default arg d = (case arg of None \<Rightarrow> d | Some n \<Rightarrow> n)"

definition add :: "product \<Rightarrow> number option \<Rightarrow> line list \<Rightarrow> line list" where
  "add product qty_arg prev =
     (let q = or_default qty_arg (Fin 1)
      in case find (\<lambda>p. strict_eq (id' p) (id' product)) prev of
           Some found \<Rightarrow>
             map (\<lambda>p. if strict_eq (id' p) (id' product)
                       then p\<lparr>qty := num_add (qty p) q\<rparr> else p) prev
         | None \<Rightarrow> prev @ [with_qty product q])"

text \<open>\<^verbatim>\<open>const remove = (id) => setItems(prev => prev.filter(p => p.id !== id));\<close>\<close>

definition remove_line :: "ident \<Rightarrow> line list \<Rightarrow> line list" where
  "remove_line i prev = filter (\<lambda>p. \<not> strict_eq (id' p) i) prev"

text \<open>No two lines of the cart have strictly equal ids.\<close>

definition distinct_ids :: "line list \<Rightarrow> bool" where
  "distinct_ids c = distinct (map (\<lambda>p. identity (id' p)) c)"

text \<open>\<^verbatim>\<open>const clear = () => setItems([]);\<close>\<close>

definition clear :: "line list \<Rightarrow> line list" where
  "clear prev = []"

text \<open>The calls a user of the cart can make, and a sequence of them from a cart.\<close>

datatype cart_call = Add product "number option" | Remove ident | Clear

fun cart_step :: "line list \<Rightarrow> cart_call \<Rightarrow> line list" where
  "cart_step c (Add product qty_arg) = add product qty_arg c"
| "cart_step c (Remove i) = remove_line i c"
| "cart_step c Clear = clear c"

definition cart_run :: "cart_call list \<Rightarrow> line list \<Rightarrow> line list" where
  "cart_run calls c = foldl cart_step c calls"

text \<open>The quantity a call to \<^verbatim>\<open>add\<close> passes on, the default included.\<close>

fun call_qty_ok :: "cart_call \<Rightarrow> bool" where
  "call_qty_ok (Add product qty_arg) = num_le (Fin 1) (or_default qty_arg (Fin 1))"
| "call_qty_ok c = True"

section \<open>The application state and its outbound calls\<close>

text \<open>
  An outbound HTTP call as the backend sees it: method, path, body, and the
  \<^verbatim>\<open>Authorization\<close> header it carries, if any.
\<close>

datatype http_method = GET | POST

record request =
  http_method :: http_method
  url :: string
  body :: jsval
  authorization :: "string option"

text \<open>
  Everything the handlers read or write: the session (\<^verbatim>\<open>AuthProvider\<close>'s \<open>token\<close>
  and \<open>user\<close>, the \<^verbatim>\<open>'token'\<close> key of local storage, the default
  \<^verbatim>\<open>Authorization\<close> header of axios), the cart's \<open>items\<close>, the \<open>msg\<close> state of
  the product page's \<^verbatim>\<open>useToast\<close>, and what the user and the backend observe: the
  \<^verbatim>\<open>alert\<close>s shown, the last URL the browser was sent to through
  \<^verbatim>\<open>window.location.href\<close>, the router's \<^verbatim>\<open>navigate\<close> calls, and the calls sent,
  oldest first. The browser comes with it: \<open>parses_url\<close> tells the strings its URL
  parser accepts.
\<close>

record world =
  token :: jsval
  user :: jsval
  localStorage_token :: "string option"
  axios_authorization :: "string option"
  items :: "line list"
  toast_msg :: jsval
  alerts :: "jsval list"
  location_href :: "string option"
  navigated :: "string list"
  sent :: "request list"
  parses_url :: "string \<Rightarrow> bool"

text \<open>
  How an awaited \<^verbatim>\<open>axios.post\<close> ends: the promise is fulfilled with a response whose
  \<^verbatim>\<open>data\<close> is the given value, or it is rejected (a transport error, or a status
  outside 2xx) with an error whose \<^verbatim>\<open>response\<close> is the given value, \<^verbatim>\<open>undefined\<close>
  when no response arrived.
\<close>

datatype outcome = Fulfilled jsval | Rejected jsval

text \<open>How a handler ends: it returns a value, or an exception leaves it.\<close>

datatype completion = Returned jsval | Threw jsval

text \<open>
  \<^verbatim>\<open>axios.post(url, body, config)\<close> and \<^verbatim>\<open>axios.get(url)\<close>: a header of the call's own
  \<open>config\<close> stands before the default one.
\<close>

definition axios_post :: "world \<Rightarrow> string \<Rightarrow> jsval \<Rightarrow> string option \<Rightarrow> world" where
  "axios_post w u b config_authorization =
     w\<lparr>sent := sent w @
        [\<lparr>http_method = POST, url = u, body = b,
          authorization = (case config_authorization of
                             Some h \<Rightarrow> Some h
                           | None \<Rightarrow> axios_authorization w)\<rparr>]\<rparr>"

definition axios_get :: "world \<Rightarrow> string \<Rightarrow> world" where
  "axios_get w u =
     w\<lparr>sent := sent w @
        [\<lparr>http_method = GET, url = u, body = Undefined,
          authorization = axios_authorization w\<rparr>]\<rparr>"

definition alert :: "world \<Rightarrow> jsval \<Rightarrow> world" where
  "alert w m = w\<lparr>alerts := alerts w @ [m]\<rparr>"

text \<open>
  \<^verbatim>\<open>toast.show\<close> of \<^verbatim>\<open>useToast\<close>: \<^verbatim>\<open>setMsg\<close>, a write to the hook's \<open>msg\<close>
  state (which a timer of the hook sets back to \<^verbatim>\<open>null\<close> 3.5 seconds later; the
  timer is left out). The product page, the one user of the hook, renders nothing from
  \<open>msg\<close> (see \<open>ProductDetail_view\<close> below), so the write displays nothing.
\<close>

definition toast_show :: "world \<Rightarrow> jsval \<Rightarrow> world" where
  "toast_show w m = w\<lparr>toast_msg := m\<rparr>"

definition navigate :: "world \<Rightarrow> string \<Rightarrow> world" where
  "navigate w path = w\<lparr>navigated := navigated w @ [path]\<rparr>"

text \<open>
  \<^verbatim>\<open>window.location.href = v\<close>: the value is converted to a string and parsed as a URL;
  the browser is sent there, or, when the string does not parse, the assignment throws
  a \<^verbatim>\<open>SyntaxError\<close>: \<open>None\<close>.
\<close>

definition assign_href :: "world \<Rightarrow> jsval \<Rightarrow> world option" where
  "assign_href w v =
     (if parses_url w (to_string v) then Some (w\<lparr>location_href := Some (to_string v)\<rparr>)
      else None)"

section \<open>Session (AuthProvider)\<close>

text \<open>
  \<^verbatim>\<open>useEffect(() => {
      if (token) {
          localStorage.setItem('token', token);
          setUser({ email: 'user@me' });
          axios.defaults.headers.common['Authorization'] = 'Bearer ' + token;
      } else {
          localStorage.removeItem('token');
          delete axios.defaults.headers.common['Authorization'];
          setUser(null);
      }
  }, [token]);\<close>
\<close>

definition token_effect :: "world \<Rightarrow> world" where
  "token_effect w =
     (if truthy (token w)
      then w\<lparr>localStorage_token := Some (to_string (token w)),
             user := Obj [(''email'', Str ''user@me'')],
             axios_authorization := Some (''Bearer '' @ to_string (token w))\<rparr>
      else w\<lparr>localStorage_token := None,
             axios_authorization := None,
             user := Null\<rparr>)"

text \<open>
  \<^verbatim>\<open>setToken(t)\<close>: the state changes and the effect that depends on it runs, here as one
  step.
\<close>

definition setToken :: "world \<Rightarrow> jsval \<Rightarrow> world" where
  "setToken w t = token_effect (w\<lparr>token := t\<rparr>)"

text \<open>
  The application as it starts in a browser with the URL parser \<open>parses\<close>:
  \<^verbatim>\<open>useState(localStorage.getItem('token'))\<close>, \<^verbatim>\<open>useState(null)\<close> for the user, an
  empty cart, nothing shown or sent; then the effect runs for the first time.
\<close>

definition mount :: "(string \<Rightarrow> bool) \<Rightarrow> string option \<Rightarrow> world" where
  "mount parses stored =
     token_effect
       \<lparr>token = (case stored of None \<Rightarrow> Null | Some t \<Rightarrow> Str t),
        user = Null,
        localStorage_token = stored,
        axios_authorization = None,
        items = [],
        toast_msg = Null,
        alerts = [],
        location_href = None,
        navigated = [],
        sent = [],
        parses_url = parses\<rparr>"

text \<open>
  \<^verbatim>\<open>const login = async (email, password) => {
      const res = await axios.post('/api/auth/login', { email, password });
      if (res.data?.token) { setToken(res.data.token); return { ok: true }; }
      return { ok: false, error: res.data?.error || 'Login failed' };
  };\<close>

  Nothing catches a rejected call: the rejection leaves \<^verbatim>\<open>login\<close>.
\<close>

definition login :: "world \<Rightarrow> string \<Rightarrow> string \<Rightarrow> outcome \<Rightarrow> world \<times> completion" where
  "login w email password oc =
     (let w1 = axios_post w ''/api/auth/login''
                 (Obj [(''email'', Str email), (''password'', Str password)]) None
      in case oc of
           Rejected r \<Rightarrow> (w1, Threw (Obj [(''response'', r)]))
         | Fulfilled d \<Rightarrow>
             if truthy (opt_get d ''token'')
             then (setToken w1 (opt_get d ''token''), Returned (Obj [(''ok'', Bool True)]))
             else (w1, Returned (Obj [(''ok'', Bool False),
                                      (''error'', js_or (opt_get d ''error'') (Str ''Login failed''))])))"

text \<open>
  \<^verbatim>\<open>const register = async (email, password) => {
      const res = await axios.post('/api/auth/register', { email, password });
      if (res.data?.token) { setToken(res.data.token); return { ok: true }; }
      return { ok: false, error: res.data?.error || 'Register failed' };
  };\<close>
\<close>

definition register :: "world \<Rightarrow> string \<Rightarrow> string \<Rightarrow> outcome \<Rightarrow> world \<times> completion" where
  "register w email password oc =
     (let w1 = axios_post w ''/api/auth/register''
                 (Obj [(''email'', Str email), (''password'', Str password)]) None
      in case oc of
           Rejected r \<Rightarrow> (w1, Threw (Obj [(''response'', r)]))
         | Fulfilled d \<Rightarrow>
             if truthy (opt_get d ''token'')
             then (setToken w1 (opt_get d ''token''), Returned (Obj [(''ok'', Bool True)]))
             else (w1, Returned (Obj [(''ok'', Bool False),
                                      (''error'', js_or (opt_get d ''error'') (Str ''Register failed''))])))"

text \<open>\<^verbatim>\<open>const logout = () => setToken(null);\<close>\<close>

definition logout :: "world \<Rightarrow> world" where
  "logout w = setToken w Null"

section \<open>Checkout (ProductDetail.buyNow, Checkout.doCheckout)\<close>

text \<open>
  \<^verbatim>\<open>const buyNow = async () => {
      if (!auth.token) return toast.show('Please login first');
      try {
          const res = await axios.post('/api/checkout', { productId: id });
          if (res.data?.downloadUrl) {
              window.location.href = res.data.downloadUrl;
          } else {
              toast.show(res.data?.error || 'Checkout failed');
          }
      } catch (e) { toast.show('Checkout error'); }
  };\<close>

  \<open>id\<close> is the route parameter of \<^verbatim>\<open>/product/:id\<close>, a string. The product page does
  not use the cart. An assignment to \<^verbatim>\<open>href\<close> that throws is caught like a rejected
  call.
\<close>

definition buyNow :: "world \<Rightarrow> string \<Rightarrow> outcome \<Rightarrow> world" where
  "buyNow w route_id oc =
     (if \<not> truthy (token w) then toast_show w (Str ''Please login first'')
      else
        let w1 = axios_post w ''/api/checkout'' (Obj [(''productId'', Str route_id)]) None
        in case oc of
             Fulfilled d \<Rightarrow>
               if truthy (opt_get d ''downloadUrl'')
               then (case assign_href w1 (opt_get d ''downloadUrl'') of
                       Some w2 \<Rightarrow> w2
                     | None \<Rightarrow> toast_show w1 (Str ''Checkout error''))
               else toast_show w1 (js_or (opt_get d ''error'') (Str ''Checkout failed''))
           | Rejected r \<Rightarrow> toast_show w1 (Str ''Checkout error''))"

text \<open>
  \<^verbatim>\<open>const doCheckout = async () => {
      if (!auth.token) return alert('Login first');
      if (!items.length) return alert('Cart empty');
      try {
          // naive: checkout first item
          const res = await axios.post('/api/checkout', { productId: items[0].id });
          if (res.data?.downloadUrl) {
              window.location.href = res.data.downloadUrl;
              clear();
          } else alert(res.data?.error || 'Checkout failed');
      } catch (e) { alert('Checkout error'); }
  };\<close>
\<close>

definition doCheckout :: "world \<Rightarrow> outcome \<Rightarrow> world" where
  "doCheckout w oc =
     (if \<not> truthy (token w) then alert w (Str ''Login first'')
      else case items w of
        [] \<Rightarrow> alert w (Str ''Cart empty'')
      | first # rest \<Rightarrow>
          (let w1 = axios_post w ''/api/checkout''
                      (Obj [(''productId'', ident_val (id' first))]) None
           in (case oc of
                 Fulfilled d \<Rightarrow>
                   if truthy (opt_get d ''downloadUrl'')
                   then (case assign_href w1 (opt_get d ''downloadUrl'') of
                           Some w2 \<Rightarrow> w2\<lparr>items := clear (items w2)\<rparr>
                         | None \<Rightarrow> alert w1 (Str ''Checkout error''))
                   else alert w1 (js_or (opt_get d ''error'') (Str ''Checkout failed''))
               | Rejected r \<Rightarrow> alert w1 (Str ''Checkout error''))))"

section \<open>What the product page renders (ProductDetail)\<close>

text \<open>
  \<^verbatim>\<open>if (loading) return <div className="container">Loading...</div>;
  if (!product) return <div className="container">Product not found.</div>;
  return (
      ... <img src={product.coverImageUrl || '/placeholder.png'} ... />
          <h2>{product.title}</h2>
          <p ...>{product.description}</p>
          ... <div ...>{formatPrice(product.price)}</div>
          ... <button className="button" onClick={buyNow}>
                {product.price === 0 ? 'Download' : 'Buy & Download'}</button> ...
  );\<close>

  The nodes of the page with content, in their order. The component holds \<open>msg\<close>, the
  state of its \<^verbatim>\<open>useToast\<close>, and no node is made from it. The result is \<open>None\<close> where
  \<open>formatPrice\<close> is.
\<close>

datatype node = Text string | Image string | Button string

definition ProductDetail_view :: "bool \<Rightarrow> product option \<Rightarrow> jsval \<Rightarrow> node list option" where
  "ProductDetail_view loading product msg =
     (if loading then Some [Text ''Loading...'']
      else case product of
        None \<Rightarrow> Some [Text ''Product not found.'']
      | Some p \<Rightarrow>
          map_option
            (\<lambda>shown_price.
               [Image (if coverImageUrl p \<noteq> [] then coverImageUrl p else ''/placeholder.png''),
                Text (title p),
                Text (description p),
                Text shown_price,
                Button (if price p = 0 then ''Download'' else ''Buy & Download'')])
            (formatPrice (price p)))"

section \<open>The login form (AuthPage.submit) and the header's logout\<close>

text \<open>
  \<^verbatim>\<open>const submit = async (e) => {
      e.preventDefault();
      if (mode === 'login') {
          const r = await auth.login(email, pass);
          if (r.ok) navigate('/'); else alert(r.error);
      } else {
          const r = await auth.register(email, pass);
          if (r.ok) navigate('/'); else alert(r.error);
      }
  };\<close>

  An exception that leaves \<^verbatim>\<open>login\<close> or \<^verbatim>\<open>register\<close> leaves \<^verbatim>\<open>submit\<close> as well.
\<close>

definition submit :: "world \<Rightarrow> string \<Rightarrow> string \<Rightarrow> string \<Rightarrow> outcome \<Rightarrow> world \<times> completion" where
  "submit w mode email pass oc =
     (case (if mode = ''login'' then login w email pass oc else register w email pass oc) of
        (w1, Threw e) \<Rightarrow> (w1, Threw e)
      | (w1, Returned r) \<Rightarrow>
          if truthy (opt_get r ''ok'') then (navigate w1 ''/'', Returned Undefined)
          else (alert w1 (opt_get r ''error''), Returned Undefined))"

text \<open>\<^verbatim>\<open>onClick={() => { auth.logout(); navigate('/'); }}\<close>\<close>

definition header_logout :: "world \<Rightarrow> world" where
  "header_logout w = navigate (logout w) ''/''"

section \<open>Admin (AdminPage)\<close>

text \<open>
  The creation form. Its price field is kept as the number \<^verbatim>\<open>Number(form.price)\<close>
  gives.
\<close>

record form =
  form_title :: string
  form_description :: string
  form_price :: int
  form_coverImageUrl :: string

text \<open>
  \<^verbatim>\<open>const load = () => axios.get('/api/products').then(...).catch(...);\<close>

  The response fills the page's product list, which no handler here reads.
\<close>

definition load :: "world \<Rightarrow> world" where
  "load w = axios_get w ''/api/products''"

text \<open>
  What \<^verbatim>\<open>await axios.post(...).catch(e => e.response?.data)\<close> yields: the response, an
  object with the property \<^verbatim>\<open>data\<close>, or the \<^verbatim>\<open>data\<close> of the error's response.
\<close>

definition caught :: "outcome \<Rightarrow> jsval" where
  "caught oc =
     (case oc of
        Fulfilled d \<Rightarrow> Obj [(''data'', d)]
      | Rejected r \<Rightarrow> opt_get r ''data'')"

text \<open>
  \<^verbatim>\<open>const create = async (e) => {
      e.preventDefault();
      if (!auth.token) return alert('Login as admin');
      const payload = { ...form, price: Number(form.price) };
      const res = await axios.post('/api/admin/products', payload,
          { headers: { Authorization: 'Bearer ' + auth.token } }).catch(e => e.response?.data);
      if (res?.data?.id) { alert('Created'); load(); } else alert('Create failed');
  };\<close>
\<close>

definition create :: "world \<Rightarrow> form \<Rightarrow> outcome \<Rightarrow> world" where
  "create w f oc =
     (if \<not> truthy (token w) then alert w (Str ''Login as admin'')
      else
        let payload = Obj [(''title'', Str (form_title f)),
                           (''description'', Str (form_description f)),
                           (''price'', Num (form_price f)),
                           (''coverImageUrl'', Str (form_coverImageUrl f))];
            w1 = axios_post w ''/api/admin/products'' payload
                   (Some (''Bearer '' @ to_string (token w)));
            res = caught oc
        in if truthy (opt_get (opt_get res ''data'') ''id'')
           then load (alert w1 (Str ''Created''))
           else alert w1 (Str ''Create failed''))"

text \<open>
  \<^verbatim>\<open>const uploadFile = async (id, file) => {
      const fd = new FormData(); fd.append('file', file);
      const res = await axios.post(`/api/admin/products/${id}/file`, fd,
          { headers: { Authorization: 'Bearer ' + auth.token } }).catch(e => e.response?.data);
      if (res?.data?.filePath) alert('Uploaded'); else alert('Upload failed');
      load();
  };\<close>
\<close>

definition uploadFile :: "world \<Rightarrow> jsval \<Rightarrow> jsval \<Rightarrow> outcome \<Rightarrow> world" where
  "uploadFile w i file oc =
     (let fd = Obj [(''file'', file)];
          w1 = axios_post w (''/api/admin/products/'' @ to_string i @ ''/file'') fd
                 (Some (''Bearer '' @ to_string (token w)));
          res = caught oc;
          w2 = (if truthy (opt_get (opt_get res ''data'') ''filePath'')
                then alert w1 (Str ''Uploaded'') else alert w1 (Str ''Upload failed''))
      in load w2)"

section \<open>Sequences of user actions\<close>

text \<open>
  What a user can do, with the backend's answer where an action awaits one, and the
  state after a sequence of actions. The fetches that the catalogue views and the
  admin page make when they mount are not among the actions.
\<close>

datatype action =
    Login string string outcome
  | Register string string outcome
  | Submit string string string outcome
  | Logout
  | HeaderLogout
  | BuyNow string outcome
  | DoCheckout outcome
  | Create form outcome
  | UploadFile jsval jsval outcome
  | Cart cart_call

fun act :: "world \<Rightarrow> action \<Rightarrow> world" where
  "act w (Login email password oc) = fst (login w email password oc)"
| "act w (Register email password oc) = fst (register w email password oc)"
| "act w (Submit mode email pass oc) = fst (submit w mode email pass oc)"
| "act w Logout = logout w"
| "act w HeaderLogout = header_logout w"
| "act w (BuyNow route_id oc) = buyNow w route_id oc"
| "act w (DoCheckout oc) = doCheckout w oc"
| "act w (Create f oc) = create w f oc"
| "act w (UploadFile i file oc) = uploadFile w i file oc"
| "act w (Cart c) = w\<lparr>items := cart_step (items w) c\<rparr>"

definition run :: "world \<Rightarrow> action list \<Rightarrow> world" where
  "run w actions = foldl act w actions"

section \<open>The session and the calls sent\<close>

text \<open>
  The state the token effect leaves: with a token, the token's string is stored under
  the \<^verbatim>\<open>'token'\<close> key and the default header is \<^verbatim>\<open>'Bearer '\<close> followed by it;
  without one, the key is absent, there is no default header and no user.
\<close>

definition session_ok :: "world \<Rightarrow> bool" where
  "session_ok w =
     (if truthy (token w)
      then localStorage_token w = Some (to_string (token w)) \<and>
           axios_authorization w = Some (''Bearer '' @ to_string (token w)) \<and>
           user w = Obj [(''email'', Str ''user@me'')]
      else localStorage_token w = None \<and> axios_authorization w = None \<and> user w = Null)"

text \<open>The calls an action sends: what it appends to the calls sent before.\<close>

definition issued :: "world \<Rightarrow> action \<Rightarrow> request list" where
  "issued w a = drop (length (sent w)) (sent (act w a))"

fun is_upload :: "action \<Rightarrow> bool" where
  "is_upload (UploadFile i file oc) = True"
| "is_upload a = False"

section \<open>Example data\<close>

definition alpha :: product where
  "alpha = \<lparr>id' = IdNum 1, title = ''Alpha'', description = ''First'', price = 799,
            coverImageUrl = ''/alpha.png''\<rparr>"

definition beta :: product where
  "beta = \<lparr>id' = IdNum 2, title = ''Beta'', description = ''Second'', price = 0,
           coverImageUrl = ''/beta.png''\<rparr>"

text \<open>
  Two products whose ids are two objects with the same properties.
\<close>

definition gamma :: product where
  "gamma = \<lparr>id' = IdObj 10 [(''k'', Num 1)], title = ''Gamma'', description = ''Third'',
            price = 500, coverImageUrl = ''/gamma.png''\<rparr>"

definition delta :: product where
  "delta = \<lparr>id' = IdObj 11 [(''k'', Num 1)], title = ''Gamma'', description = ''Third'',
            price = 500, coverImageUrl = ''/gamma.png''\<rparr>"

text \<open>A URL parser that refuses the string \<^verbatim>\<open>http://[\<close>, as browsers do.\<close>

definition browser_parses :: "string \<Rightarrow> bool" where
  "browser_parses u = (u \<noteq> ''http://['')"

text \<open>A visitor without a stored token, and one who has a token and two lines in the cart.\<close>

definition guest :: world where
  "guest = mount browser_parses None"

definition member :: world where
  "member = (mount browser_parses (Some ''abc''))
              \<lparr>items := [with_qty alpha (Fin 1), with_qty beta (Fin 2)]\<rparr>"

section \<open>Properties of strict equality and of sums\<close>

lemma strict_eq_refl [simp]: "strict_eq a a"
  by (simp add: strict_eq_def)

lemma bit_length_le: "n < 2 ^ k \<Longrightarrow> bit_length n \<le> k"
proof (induction k arbitrary: n)
  case 0
  then show ?case by (simp add: bit_length.simps)
next
  case (Suc k)
  show ?case
  proof (cases "n = 0")
    case True
    then show ?thesis by (simp add: bit_length.simps)
  next
    case False
    have "n div 2 < 2 ^ k" using Suc.prems by simp
    then have "bit_length (n div 2) \<le> k" by (rule Suc.IH)
    then show ?thesis using False by (subst bit_length.simps) simp
  qed
qed

lemma bit_length_lower: "0 < n \<Longrightarrow> 2 ^ (bit_length n - 1) \<le> n"
proof (induction n rule: bit_length.induct)
  case (1 n)
  show ?case
  proof (cases "n div 2 = 0")
    case True
    then have "bit_length n = 1" using "1.prems" by (simp add: bit_length.simps)
    then show ?thesis using "1.prems" by simp
  next
    case False
    then have pos: "0 < n div 2" by simp
    have ih: "2 ^ (bit_length (n div 2) - 1) \<le> n div 2"
      using "1.IH" "1.prems" pos by simp
    have bl: "bit_length n = Suc (bit_length (n div 2))"
      using "1.prems" by (subst bit_length.simps) simp
    have "0 < bit_length (n div 2)" using pos by (subst bit_length.simps) simp
    then have "(2::nat) ^ (bit_length n - 1) = 2 * 2 ^ (bit_length (n div 2) - 1)"
      using bl by (cases "bit_length (n div 2)") simp_all
    also have "\<dots> \<le> 2 * (n div 2)" using ih by simp
    also have "\<dots> \<le> n" by simp
    finally show ?thesis .
  qed
qed

lemma round_half_even_ge: "n div d \<le> round_half_even n d"
  by (simp add: round_half_even_def Let_def)

lemma round53_exact: "\<bar>s\<bar> < 2 ^ 53 \<Longrightarrow> round53 s = s"
proof -
  assume "\<bar>s\<bar> < 2 ^ 53"
  then have "nat \<bar>s\<bar> < 2 ^ 53" by (simp add: nat_less_iff)
  then have "bit_length (nat \<bar>s\<bar>) \<le> 53" by (rule bit_length_le)
  then show ?thesis by (simp add: round53_def)
qed

lemma round53_pos: "1 \<le> s \<Longrightarrow> 1 \<le> round53 s"
proof -
  assume s: "1 \<le> s"
  define n where "n = nat \<bar>s\<bar>"
  have n: "0 < n" using s by (simp add: n_def)
  show ?thesis
  proof (cases "bit_length n \<le> 53")
    case True
    then show ?thesis using s by (simp add: round53_def n_def)
  next
    case False
    define d :: nat where "d = 2 ^ (bit_length n - 53)"
    have "d \<le> 2 ^ (bit_length n - 1)" unfolding d_def by (rule power_increasing) simp_all
    also have "\<dots> \<le> n" using n by (rule bit_length_lower)
    finally have "d \<le> n" .
    moreover have "0 < d" by (simp add: d_def)
    ultimately have "1 \<le> n div d" by (simp add: Suc_le_eq div_greater_zero_iff)
    then have "1 \<le> round_half_even n d" using round_half_even_ge [of n d] by linarith
    then have "1 \<le> round_half_even n d * d" using \<open>0 < d\<close> by (simp add: Suc_le_eq)
    then have "1 \<le> int (round_half_even n d * d)" by linarith
    moreover have "round53 s = int (round_half_even n d * d)"
      using False s by (simp add: round53_def Let_def n_def d_def)
    ultimately show ?thesis by simp
  qed
qed

lemma fin_add_exact: "\<bar>a + b\<bar> < 2 ^ 53 \<Longrightarrow> fin_add a b = Fin (a + b)"
proof -
  assume h: "\<bar>a + b\<bar> < 2 ^ 53"
  have "(2::int) ^ 53 \<le> 2 ^ 1024" by (rule power_increasing) simp_all
  then have "a + b < 2 ^ 1024" and "- (2 ^ 1024) < a + b" using h by linarith+
  then show ?thesis using h by (simp add: fin_add_def round53_exact Let_def)
qed

lemma num_add_ge_1:
  assumes "num_le (Fin 1) a" and "num_le (Fin 1) b"
  shows "num_le (Fin 1) (num_add a b)"
proof (cases a)
  case (Fin x)
  note a = this
  show ?thesis
  proof (cases b)
    case (Fin y)
    have "1 \<le> round53 (x + y)" using assms a Fin by (intro round53_pos) simp
    then show ?thesis using a Fin by (simp add: fin_add_def Let_def)
  qed (use assms a in simp_all)
next
  case PosInf
  then show ?thesis using assms by (cases b) simp_all
qed (use assms in simp_all)


section \<open>Properties of the cart\<close>

lemma find_None_conv: "find P xs = None \<longleftrightarrow> (\<forall>x\<in>set xs. \<not> P x)"
  by (induction xs) auto

lemma add_present:
  assumes "\<exists>p\<in>set prev. strict_eq (id' p) (id' product)"
  shows "add product qty_arg prev =
     map (\<lambda>p. if strict_eq (id' p) (id' product)
               then p\<lparr>qty := num_add (qty p) (or_default qty_arg (Fin 1))\<rparr> else p) prev"
  using assms by (auto simp: add_def Let_def find_None_conv split: option.splits)

lemma add_absent:
  assumes "\<forall>p\<in>set prev. \<not> strict_eq (id' p) (id' product)"
  shows "add product qty_arg prev = prev @ [with_qty product (or_default qty_arg (Fin 1))]"
  using assms by (auto simp: add_def Let_def find_None_conv split: option.splits)

lemma id_with_qty [simp]: "id' (with_qty product q) = id' product"
  by (simp add: with_qty_def)

lemma qty_with_qty [simp]: "qty (with_qty product q) = q"
  by (simp add: with_qty_def)










lemma add_qty_bound:
  assumes "\<forall>l\<in>set prev. num_le (Fin 1) (qty l)" and "num_le (Fin 1) (or_default qty_arg (Fin 1))"
  shows "\<forall>l\<in>set (add product qty_arg prev). num_le (Fin 1) (qty l)"
proof (cases "\<exists>p\<in>set prev. strict_eq (id' p) (id' product)")
  case True
  then show ?thesis using assms by (auto simp: add_present num_add_ge_1)
next
  case False
  then have "\<forall>p\<in>set prev. \<not> strict_eq (id' p) (id' product)" by blast
  then show ?thesis using assms by (auto simp: add_absent)
qed

lemma cart_step_qty_bound:
  assumes "\<forall>l\<in>set c. num_le (Fin 1) (qty l)" and "call_qty_ok call"
  shows "\<forall>l\<in>set (cart_step c call). num_le (Fin 1) (qty l)"
proof (cases call)
  case (Add product qty_arg)
  then show ?thesis using assms add_qty_bound [of c qty_arg product] by simp
next
  case (Remove i)
  then show ?thesis using assms by (simp add: remove_line_def)
next
  case Clear
  then show ?thesis by (simp add: clear_def)
qed

lemma foldl_cart_step_qty_bound:
  "\<forall>l\<in>set c. num_le (Fin 1) (qty l) \<Longrightarrow> \<forall>call\<in>set calls. call_qty_ok call \<Longrightarrow>
   \<forall>l\<in>set (foldl cart_step c calls). num_le (Fin 1) (qty l)"
proof (induction calls arbitrary: c)
  case Nil
  then show ?case by simp
next
  case (Cons call calls)
  have "\<forall>l\<in>set (cart_step c call). num_le (Fin 1) (qty l)"
    using Cons.prems by (intro cart_step_qty_bound) simp_all
  then show ?case using Cons.IH Cons.prems by simp
qed

text \<open>
  C7, as stated, fails: \<^verbatim>\<open>add\<close> takes the quantity it is given, and
  \<^verbatim>\<open>add(alpha, 0)\<close> on the empty cart makes a line with quantity 0.
\<close>

theorem cart_quantity_counterexample:
  "cart_run [Add alpha (Some (Fin 0))] [] = [with_qty alpha (Fin 0)] \<and>
   \<not> num_le (Fin 1) (qty (with_qty alpha (Fin 0)))"
  by (simp add: cart_run_def add_def or_default_def)

text \<open>
  C7, amended. In every cart reached from the empty cart by calls of \<^verbatim>\<open>add\<close>,
  \<^verbatim>\<open>remove\<close> and \<^verbatim>\<open>clear\<close> in which every \<^verbatim>\<open>add\<close> is given a quantity of at
  least 1 or none (the default 1), every line has a quantity of at least 1.
\<close>

theorem cart_quantities_positive:
  assumes "\<forall>call\<in>set calls. call_qty_ok call"
  shows "\<forall>l\<in>set (cart_run calls []). num_le (Fin 1) (qty l)"
  unfolding cart_run_def using assms by (intro foldl_cart_step_qty_bound) simp_all

text \<open>C7, amended, at a sequence of five calls that ends with two lines.\<close>

theorem cart_quantities_positive_witness:
  "list_all call_qty_ok
     [Add alpha None, Add beta (Some (Fin 2)), Add alpha (Some (Fin 3)), Remove (IdNum 2),
      Add beta None]
   \<and> list_all (\<lambda>l. num_le (Fin 1) (qty l))
        (cart_run
           [Add alpha None, Add beta (Some (Fin 2)), Add alpha (Some (Fin 3)), Remove (IdNum 2),
            Add beta None] [])
   \<and> cart_run
        [Add alpha None, Add beta (Some (Fin 2)), Add alpha (Some (Fin 3)), Remove (IdNum 2),
         Add beta None] []
      = [with_qty alpha (Fin 4), with_qty beta (Fin 1)]"
proof -
  let ?calls =
    "[Add alpha None, Add beta (Some (Fin 2)), Add alpha (Some (Fin 3)), Remove (IdNum 2),
      Add beta None]"
  have h: "\<forall>call\<in>set ?calls. call_qty_ok call" by (simp add: or_default_def)
  have s: "fin_add 1 3 = Fin 4" using fin_add_exact [of 1 3] by simp
  have r: "cart_run ?calls [] = [with_qty alpha (Fin 4), with_qty beta (Fin 1)]"
    by (simp add: cart_run_def add_def remove_line_def or_default_def alpha_def beta_def
        with_qty_def strict_eq_def s)
  show ?thesis using h cart_quantities_positive [OF h] by (simp add: list_all_iff r)
qed

lemma count_list_filter:
  "count_list (filter P xs) x = (if P x then count_list xs x else 0)"
  by (induction xs) auto

lemma length_filter_distinct_key:
  "distinct (map f xs) \<Longrightarrow> k \<in> f ` set xs \<Longrightarrow>
   length (filter (\<lambda>x. f x \<noteq> k) xs) + 1 = length xs"
proof (induction xs)
  case Nil
  then show ?case by simp
next
  case (Cons x xs)
  show ?case
  proof (cases "f x = k")
    case True
    then have "k \<notin> f ` set xs" using Cons.prems by auto
    then have "filter (\<lambda>x. f x \<noteq> k) xs = xs" by (auto simp: filter_id_conv)
    then show ?thesis using True by simp
  next
    case False
    then show ?thesis using Cons by auto
  qed
qed

text \<open>
  C9. For every cart and every id, the cart after \<^verbatim>\<open>remove(id)\<close> is a subsequence
  of the cart before (the lines kept are unchanged and in their order), it holds no line
  whose id is strictly equal to the given one and every other line as often as before.
  In a cart with distinct ids that holds the id, this is one line less; in a cart
  without the id, nothing changes.
\<close>

theorem remove_line_exact:
  "subseq (remove_line i prev) prev \<and>
   (\<forall>l. count_list (remove_line i prev) l =
         (if strict_eq (id' l) i then 0 else count_list prev l)) \<and>
   (distinct_ids prev \<and> (\<exists>l\<in>set prev. strict_eq (id' l) i) \<longrightarrow>
      length (remove_line i prev) + 1 = length prev) \<and>
   ((\<forall>l\<in>set prev. \<not> strict_eq (id' l) i) \<longrightarrow> remove_line i prev = prev)"
proof (intro conjI impI allI)
  show "subseq (remove_line i prev) prev"
    by (simp add: remove_line_def)
  show "count_list (remove_line i prev) l =
          (if strict_eq (id' l) i then 0 else count_list prev l)" for l
    by (simp add: remove_line_def count_list_filter)
  show "length (remove_line i prev) + 1 = length prev"
    if h: "distinct_ids prev \<and> (\<exists>l\<in>set prev. strict_eq (id' l) i)"
  proof -
    obtain l where "l \<in> set prev" and "identity (id' l) = identity i"
      using h unfolding strict_eq_def by blast
    then have "identity i \<in> (\<lambda>p. identity (id' p)) ` set prev"
      by (metis image_eqI)
    then show ?thesis
      using h length_filter_distinct_key [of "\<lambda>p. identity (id' p)" prev "identity i"]
      by (simp add: remove_line_def distinct_ids_def strict_eq_def)
  qed
  show "remove_line i prev = prev" if "\<forall>l\<in>set prev. \<not> strict_eq (id' l) i"
    using that by (auto simp: remove_line_def filter_id_conv)
qed

text \<open>
  C9, at a cart of two lines: removing the id of the first leaves one line; removing an
  id that is another object with the properties of the second line's id leaves both.
\<close>

theorem remove_line_exact_witness:
  "distinct_ids [with_qty alpha (Fin 1), with_qty gamma (Fin 2)] \<and>
   list_ex (\<lambda>l. strict_eq (id' l) (IdNum 1)) [with_qty alpha (Fin 1), with_qty gamma (Fin 2)] \<and>
   length (remove_line (IdNum 1) [with_qty alpha (Fin 1), with_qty gamma (Fin 2)]) + 1 = 2 \<and>
   list_all (\<lambda>l. \<not> strict_eq (id' l) (id' delta))
     [with_qty alpha (Fin 1), with_qty gamma (Fin 2)] \<and>
   remove_line (id' delta) [with_qty alpha (Fin 1), with_qty gamma (Fin 2)]
     = [with_qty alpha (Fin 1), with_qty gamma (Fin 2)]"
proof -
  let ?c = "[with_qty alpha (Fin 1), with_qty gamma (Fin 2)]"
  have a: "distinct_ids ?c \<and> (\<exists>l\<in>set ?c. strict_eq (id' l) (IdNum 1))"
    by (simp add: alpha_def gamma_def distinct_ids_def strict_eq_def)
  have b: "\<forall>l\<in>set ?c. \<not> strict_eq (id' l) (id' delta)"
    by (simp add: alpha_def gamma_def delta_def strict_eq_def)
  note t1 = remove_line_exact [of "IdNum 1" ?c, THEN conjunct2, THEN conjunct2, THEN conjunct1,
      THEN mp, OF a]
  note t2 = remove_line_exact [of "id' delta" ?c, THEN conjunct2, THEN conjunct2,
      THEN conjunct2, THEN mp, OF b]
  show ?thesis using a b t1 t2 by (simp add: list_ex_iff list_all_iff)
qed

section \<open>Properties of the price format\<close>

lemma bit_length_799: "bit_length 799 = 10"
  by (simp add: bit_length.simps)

lemma bit_length_100: "bit_length 100 = 7"
  by (simp add: bit_length.simps)

text \<open>\<^verbatim>\<open>799 / 100\<close> is the binary64 number \<^verbatim>\<open>0x1.ff5c28f5c28f6p+2\<close>.\<close>

lemma fdiv_799_100: "fdiv 799 100 = (8995940255672566, - 50)"
  by (simp add: fdiv_def bit_length_799 bit_length_100 scaled_le_def round_half_even_def Let_def)

lemma digits_799: "digits 799 = ''799''"
  by (simp add: digits.simps digit_char_def)

lemma toFixed_799: "toFixed (8995940255672566, - 50) 2 = Some ''7.99''"
  by (simp add: toFixed_def Let_def digits_799)

text \<open>
  C10. \<^verbatim>\<open>formatPrice(0)\<close> is the string \<^verbatim>\<open>Free\<close>, and \<^verbatim>\<open>formatPrice(799)\<close> is the
  string \<^verbatim>\<open>$7.99\<close>.
\<close>

theorem formatPrice_examples:
  "formatPrice 0 = Some ''Free'' \<and> formatPrice 799 = Some ''$7.99''"
  by (simp add: formatPrice_def fdiv_799_100 toFixed_799)

section \<open>Properties of the checkout\<close>

lemma guest_eq:
  "guest = \<lparr>token = Null, user = Null, localStorage_token = None, axios_authorization = None,
            items = [], toast_msg = Null, alerts = [], location_href = None, navigated = [],
            sent = [], parses_url = browser_parses\<rparr>"
  by (simp add: guest_def mount_def token_effect_def)

lemma member_eq:
  "member = \<lparr>token = Str ''abc'', user = Obj [(''email'', Str ''user@me'')],
             localStorage_token = Some ''abc'', axios_authorization = Some ''Bearer abc'',
             items = [with_qty alpha (Fin 1), with_qty beta (Fin 2)], toast_msg = Null,
             alerts = [], location_href = None, navigated = [], sent = [],
             parses_url = browser_parses\<rparr>"
  by (simp add: member_def mount_def token_effect_def)

text \<open>Without a token the two handlers stop at their first line.\<close>

lemma buyNow_without_token:
  "\<not> truthy (token w) \<Longrightarrow> buyNow w route_id oc = toast_show w (Str ''Please login first'')"
  by (simp add: buyNow_def)

lemma doCheckout_without_token:
  "\<not> truthy (token w) \<Longrightarrow> doCheckout w oc = alert w (Str ''Login first'')"
  by (simp add: doCheckout_def)

lemma checkout_without_token_sends_nothing:
  assumes "\<not> truthy (token w)"
  shows "sent (buyNow w route_id oc) = sent w" and "sent (doCheckout w oc) = sent w"
    and "alerts (doCheckout w oc) = alerts w @ [Str ''Login first'']"
  using assms by (simp_all add: buyNow_def doCheckout_def toast_show_def alert_def)

text \<open>\<^verbatim>\<open>buyNow\<close> shows no alert, whatever happens.\<close>

lemma buyNow_alerts: "alerts (buyNow w route_id oc) = alerts w"
  by (cases oc)
     (auto simp: buyNow_def Let_def axios_post_def toast_show_def assign_href_def
        split: option.splits)

text \<open>The product page renders the same nodes whatever the toast's message is.\<close>

lemma ProductDetail_view_ignores_msg:
  "ProductDetail_view loading product msg = ProductDetail_view loading product msg'"
  by (simp add: ProductDetail_view_def)

text \<open>
  C3. The claim has \<^verbatim>\<open>buyNow\<close> show a prompt to log in when there is no token. Here
  the visitor without a token presses the button of the product page: no call is sent,
  no alert is shown, the message \<^verbatim>\<open>Please login first\<close> is written to the toast's
  state, and the page renders the nodes it rendered before, none of them the message.
\<close>

theorem buyNow_prompt_is_not_rendered:
  "\<not> truthy (token guest) \<and>
   sent (buyNow guest ''2'' (Rejected Undefined)) = [] \<and>
   alerts (buyNow guest ''2'' (Rejected Undefined)) = [] \<and>
   toast_msg (buyNow guest ''2'' (Rejected Undefined)) = Str ''Please login first'' \<and>
   ProductDetail_view False (Some beta) (toast_msg (buyNow guest ''2'' (Rejected Undefined))) =
     Some [Image ''/beta.png'', Text ''Beta'', Text ''Second'', Text ''Free'', Button ''Download'']"
  by (simp add: guest_eq buyNow_def toast_show_def ProductDetail_view_def beta_def
      formatPrice_def)

text \<open>
  C8. With a token and a cart whose first line is \<open>first\<close>, whatever the backend
  answers, \<^verbatim>\<open>doCheckout\<close> sends exactly one call: a POST to \<^verbatim>\<open>/api/checkout\<close>
  whose body is \<^verbatim>\<open>{ productId: first.id }\<close>. The other lines are in no call.
\<close>

theorem cart_checkout_posts_first_line:
  assumes "truthy (token w)" and "items w = first # rest"
  shows "sent (doCheckout w oc) =
         sent w @ [\<lparr>http_method = POST, url = ''/api/checkout'',
                    body = Obj [(''productId'', ident_val (id' first))],
                    authorization = axios_authorization w\<rparr>]"
  using assms
  by (cases oc)
     (auto simp: doCheckout_def axios_post_def alert_def clear_def Let_def assign_href_def
        split: option.splits)

text \<open>C8, at the cart of two lines: the call names the id of the first, 1.\<close>

theorem cart_checkout_posts_first_line_witness:
  "truthy (token member) \<and> items member = with_qty alpha (Fin 1) # [with_qty beta (Fin 2)] \<and>
   sent (doCheckout member (Rejected Undefined)) =
     [\<lparr>http_method = POST, url = ''/api/checkout'', body = Obj [(''productId'', Num 1)],
       authorization = Some ''Bearer abc''\<rparr>]"
proof -
  have h1: "truthy (token member)" by (simp add: member_eq)
  have h2: "items member = with_qty alpha (Fin 1) # [with_qty beta (Fin 2)]"
    by (simp add: member_eq)
  note t = cart_checkout_posts_first_line [OF h1 h2, of "Rejected Undefined"]
  show ?thesis using h1 h2 t by (simp add: member_eq alpha_def with_qty_def)
qed

text \<open>
  C1, as stated, fails twice. On the product page, with a token, a cart of two lines
  and a response that holds a \<^verbatim>\<open>downloadUrl\<close>, \<^verbatim>\<open>buyNow\<close> navigates to the URL
  and the cart still has its two lines. On the cart page, a response whose
  \<^verbatim>\<open>downloadUrl\<close> the browser cannot parse makes the assignment throw: the browser is
  not navigated, the cart keeps its lines and \<^verbatim>\<open>Checkout error\<close> is shown.
\<close>

theorem buyNow_keeps_cart_counterexample:
  "truthy (token member) \<and>
   truthy (opt_get (Obj [(''downloadUrl'', Str ''/files/1'')]) ''downloadUrl'') \<and>
   location_href (buyNow member ''1'' (Fulfilled (Obj [(''downloadUrl'', Str ''/files/1'')])))
     = Some ''/files/1'' \<and>
   items (buyNow member ''1'' (Fulfilled (Obj [(''downloadUrl'', Str ''/files/1'')])))
     = [with_qty alpha (Fin 1), with_qty beta (Fin 2)] \<and>
   truthy (opt_get (Obj [(''downloadUrl'', Str ''http://['')]) ''downloadUrl'') \<and>
   location_href (doCheckout member (Fulfilled (Obj [(''downloadUrl'', Str ''http://['')])))
     = None \<and>
   items (doCheckout member (Fulfilled (Obj [(''downloadUrl'', Str ''http://['')])))
     = [with_qty alpha (Fin 1), with_qty beta (Fin 2)] \<and>
   alerts (doCheckout member (Fulfilled (Obj [(''downloadUrl'', Str ''http://['')])))
     = [Str ''Checkout error'']"
  by (simp add: member_eq buyNow_def doCheckout_def axios_post_def assign_href_def
      browser_parses_def alert_def)

text \<open>
  C1, amended. With a token: when the response holds a truthy \<^verbatim>\<open>downloadUrl\<close> that
  the browser parses as a URL, \<^verbatim>\<open>buyNow\<close> navigates the browser to it and leaves the
  cart as it was, and \<^verbatim>\<open>doCheckout\<close>, on a cart that is not empty, navigates the
  browser to it and clears the cart; in every other case (no such \<^verbatim>\<open>downloadUrl\<close>, or
  a rejected call) the cart is exactly what it was and the browser is not navigated, and
  \<^verbatim>\<open>doCheckout\<close> shows an error message in an alert (the response's \<^verbatim>\<open>error\<close> or
  \<^verbatim>\<open>Checkout failed\<close>; \<^verbatim>\<open>Checkout error\<close> for a rejected call or a URL that does
  not parse; \<^verbatim>\<open>Cart empty\<close> for an empty cart).
\<close>

theorem checkout_outcomes:
  assumes "truthy (token w)"
  shows
   "(truthy (opt_get d ''downloadUrl'') \<and> parses_url w (to_string (opt_get d ''downloadUrl'')) \<longrightarrow>
       location_href (buyNow w route_id (Fulfilled d)) = Some (to_string (opt_get d ''downloadUrl'')) \<and>
       items (buyNow w route_id (Fulfilled d)) = items w \<and>
       (items w \<noteq> [] \<longrightarrow>
          location_href (doCheckout w (Fulfilled d)) = Some (to_string (opt_get d ''downloadUrl'')) \<and>
          items (doCheckout w (Fulfilled d)) = [])) \<and>
    (\<not> (truthy (opt_get d ''downloadUrl'') \<and> parses_url w (to_string (opt_get d ''downloadUrl''))) \<longrightarrow>
       items (buyNow w route_id (Fulfilled d)) = items w \<and>
       location_href (buyNow w route_id (Fulfilled d)) = location_href w \<and>
       items (doCheckout w (Fulfilled d)) = items w \<and>
       location_href (doCheckout w (Fulfilled d)) = location_href w \<and>
       alerts (doCheckout w (Fulfilled d)) =
         alerts w @ [if items w = [] then Str ''Cart empty''
                     else if truthy (opt_get d ''downloadUrl'') then Str ''Checkout error''
                     else js_or (opt_get d ''error'') (Str ''Checkout failed'')]) \<and>
    items (buyNow w route_id (Rejected r)) = items w \<and>
    location_href (buyNow w route_id (Rejected r)) = location_href w \<and>
    items (doCheckout w (Rejected r)) = items w \<and>
    location_href (doCheckout w (Rejected r)) = location_href w \<and>
    alerts (doCheckout w (Rejected r)) =
      alerts w @ [if items w = [] then Str ''Cart empty'' else Str ''Checkout error'']"
  using assms
  by (cases "items w")
     (auto simp: buyNow_def doCheckout_def axios_post_def alert_def toast_show_def clear_def
        Let_def assign_href_def)

text \<open>
  C1, amended, at the visitor with a token and two lines: a link, a refusal with a
  message, and a rejected call.
\<close>

theorem checkout_outcomes_witness:
  "truthy (token member) \<and>
   items (doCheckout member (Fulfilled (Obj [(''downloadUrl'', Str ''/files/1'')]))) = [] \<and>
   location_href (doCheckout member (Fulfilled (Obj [(''downloadUrl'', Str ''/files/1'')])))
     = Some ''/files/1'' \<and>
   items (doCheckout member (Fulfilled (Obj [(''error'', Str ''Not paid'')]))) = items member \<and>
   alerts (doCheckout member (Fulfilled (Obj [(''error'', Str ''Not paid'')]))) = [Str ''Not paid''] \<and>
   items (buyNow member ''1'' (Rejected Undefined)) = items member"
proof -
  have h: "truthy (token member)" by (simp add: member_eq)
  note t1 = checkout_outcomes [OF h, of "Obj [(''downloadUrl'', Str ''/files/1'')]" "''1''" Undefined]
  note t2 = checkout_outcomes [OF h, of "Obj [(''error'', Str ''Not paid'')]" "''1''" Undefined]
  have a: "items member \<noteq> []" by (simp add: member_eq)
  have b: "alerts member = []" by (simp add: member_eq)
  have c: "parses_url member ''/files/1''" by (simp add: member_eq browser_parses_def)
  show ?thesis using h t1 t2 a b c by (simp add: js_or_def)
qed

section \<open>Properties of the session\<close>

lemma session_ok_token_effect: "session_ok (token_effect w)"
  by (simp add: session_ok_def token_effect_def)

lemma session_ok_setToken: "session_ok (setToken w t)"
  by (simp add: setToken_def session_ok_token_effect)

lemma session_ok_mount: "session_ok (mount parses stored)"
  by (simp add: mount_def session_ok_token_effect)

lemma session_ok_cong:
  "token w' = token w \<Longrightarrow> user w' = user w \<Longrightarrow> localStorage_token w' = localStorage_token w \<Longrightarrow>
   axios_authorization w' = axios_authorization w \<Longrightarrow> session_ok w' = session_ok w"
  by (simp add: session_ok_def)

text \<open>What \<^verbatim>\<open>login\<close> does, by the three ways its call can end.\<close>

lemma login_token:
  assumes "truthy (opt_get d ''token'')"
  shows "snd (login w email password (Fulfilled d)) = Returned (Obj [(''ok'', Bool True)])"
    and "token (fst (login w email password (Fulfilled d))) = opt_get d ''token''"
    and "localStorage_token (fst (login w email password (Fulfilled d)))
           = Some (to_string (opt_get d ''token''))"
    and "axios_authorization (fst (login w email password (Fulfilled d)))
           = Some (''Bearer '' @ to_string (opt_get d ''token''))"
  using assms by (simp_all add: login_def Let_def setToken_def token_effect_def axios_post_def)

lemma login_no_token:
  assumes "\<not> truthy (opt_get d ''token'')"
  shows "snd (login w email password (Fulfilled d)) =
           Returned (Obj [(''ok'', Bool False),
                          (''error'', js_or (opt_get d ''error'') (Str ''Login failed''))])"
    and "fst (login w email password (Fulfilled d)) =
           w\<lparr>sent := sent w @ [\<lparr>http_method = POST, url = ''/api/auth/login'',
                body = Obj [(''email'', Str email), (''password'', Str password)],
                authorization = axios_authorization w\<rparr>]\<rparr>"
  using assms by (simp_all add: login_def Let_def axios_post_def)

lemma login_rejected:
  "login w email password (Rejected r) =
     (w\<lparr>sent := sent w @ [\<lparr>http_method = POST, url = ''/api/auth/login'',
          body = Obj [(''email'', Str email), (''password'', Str password)],
          authorization = axios_authorization w\<rparr>]\<rparr>,
      Threw (Obj [(''response'', r)]))"
  by (simp add: login_def Let_def axios_post_def)

lemma register_token:
  assumes "truthy (opt_get d ''token'')"
  shows "snd (register w email password (Fulfilled d)) = Returned (Obj [(''ok'', Bool True)])"
    and "token (fst (register w email password (Fulfilled d))) = opt_get d ''token''"
    and "localStorage_token (fst (register w email password (Fulfilled d)))
           = Some (to_string (opt_get d ''token''))"
    and "axios_authorization (fst (register w email password (Fulfilled d)))
           = Some (''Bearer '' @ to_string (opt_get d ''token''))"
  using assms by (simp_all add: register_def Let_def setToken_def token_effect_def axios_post_def)

lemma register_no_token:
  assumes "\<not> truthy (opt_get d ''token'')"
  shows "snd (register w email password (Fulfilled d)) =
           Returned (Obj [(''ok'', Bool False),
                          (''error'', js_or (opt_get d ''error'') (Str ''Register failed''))])"
    and "fst (register w email password (Fulfilled d)) =
           w\<lparr>sent := sent w @ [\<lparr>http_method = POST, url = ''/api/auth/register'',
                body = Obj [(''email'', Str email), (''password'', Str password)],
                authorization = axios_authorization w\<rparr>]\<rparr>"
  using assms by (simp_all add: register_def Let_def axios_post_def)

lemma register_rejected:
  "register w email password (Rejected r) =
     (w\<lparr>sent := sent w @ [\<lparr>http_method = POST, url = ''/api/auth/register'',
          body = Obj [(''email'', Str email), (''password'', Str password)],
          authorization = axios_authorization w\<rparr>]\<rparr>,
      Threw (Obj [(''response'', r)]))"
  by (simp add: register_def Let_def axios_post_def)

text \<open>
  C4. The claim has \<^verbatim>\<open>login\<close> and \<^verbatim>\<open>register\<close> return an error value on a failed
  request. Here the backend answers a wrong password with status 401 and an error
  message, so that the call is rejected: the rejection leaves \<^verbatim>\<open>login\<close> and
  \<^verbatim>\<open>register\<close> as an exception, no value is returned, and the form that awaits them
  shows no alert.
\<close>

theorem login_rejection_is_thrown:
  "snd (login guest ''ann@example.com'' ''wrong''
          (Rejected (Obj [(''status'', Num 401),
                          (''data'', Obj [(''error'', Str ''Invalid credentials'')])])))
     = Threw (Obj [(''response'', Obj [(''status'', Num 401),
                          (''data'', Obj [(''error'', Str ''Invalid credentials'')])])]) \<and>
   snd (register guest ''ann@example.com'' ''wrong''
          (Rejected (Obj [(''status'', Num 401),
                          (''data'', Obj [(''error'', Str ''Invalid credentials'')])])))
     = Threw (Obj [(''response'', Obj [(''status'', Num 401),
                          (''data'', Obj [(''error'', Str ''Invalid credentials'')])])]) \<and>
   snd (submit guest ''login'' ''ann@example.com'' ''wrong''
          (Rejected (Obj [(''status'', Num 401),
                          (''data'', Obj [(''error'', Str ''Invalid credentials'')])])))
     = Threw (Obj [(''response'', Obj [(''status'', Num 401),
                          (''data'', Obj [(''error'', Str ''Invalid credentials'')])])]) \<and>
   alerts (fst (submit guest ''login'' ''ann@example.com'' ''wrong''
          (Rejected (Obj [(''status'', Num 401),
                          (''data'', Obj [(''error'', Str ''Invalid credentials'')])])))) = []"
  by (simp add: login_rejected register_rejected submit_def guest_eq)


lemmas handler_defs =
  login_def register_def submit_def logout_def header_logout_def buyNow_def doCheckout_def
  create_def uploadFile_def load_def caught_def
  axios_post_def axios_get_def alert_def toast_show_def navigate_def clear_def assign_href_def

lemma run_session_ok_step:
  assumes "session_ok w"
  shows "session_ok (act w a)"
proof (cases a)
  case (Login email password oc)
  then show ?thesis using assms
    by (cases oc) (auto simp: login_def Let_def axios_post_def session_ok_setToken
        intro: session_ok_cong [THEN iffD2])
next
  case (Register email password oc)
  then show ?thesis using assms
    by (cases oc) (auto simp: register_def Let_def axios_post_def session_ok_setToken
        intro: session_ok_cong [THEN iffD2])
next
  case (Submit mode email pass oc)
  then show ?thesis using assms
    by (cases oc)
       (auto simp: submit_def login_def register_def Let_def axios_post_def alert_def
          navigate_def setToken_def token_effect_def session_ok_def)
next
  case Logout
  then show ?thesis by (simp add: logout_def session_ok_setToken)
next
  case HeaderLogout
  then show ?thesis
    by (simp add: header_logout_def logout_def navigate_def setToken_def token_effect_def
        session_ok_def)
next
  case (BuyNow route_id oc)
  then show ?thesis using assms
    by (cases oc) (auto simp: buyNow_def Let_def axios_post_def toast_show_def assign_href_def
        session_ok_def)
next
  case (DoCheckout oc)
  then show ?thesis using assms
    by (cases oc; cases "items w")
       (auto simp: doCheckout_def Let_def axios_post_def alert_def clear_def assign_href_def
          session_ok_def)
next
  case (Create f oc)
  then show ?thesis using assms
    by (auto simp: create_def Let_def axios_post_def axios_get_def load_def alert_def
        session_ok_def)
next
  case (UploadFile i upload oc)
  then show ?thesis using assms
    by (auto simp: uploadFile_def Let_def axios_post_def axios_get_def load_def alert_def
        session_ok_def)
next
  case (Cart c)
  then show ?thesis using assms by (simp add: session_ok_def)
qed

lemma foldl_act_session_ok: "session_ok w \<Longrightarrow> session_ok (foldl act w actions)"
  by (induction actions arbitrary: w) (simp_all add: run_session_ok_step)

text \<open>
  In every state reached from the start of the application, the stored token and the
  default header agree with the token.
\<close>

lemma session_ok_reachable: "session_ok (run (mount parses stored) actions)"
  by (simp add: run_def foldl_act_session_ok session_ok_mount)


text \<open>
  With a token, every call an action sends carries the token as a bearer credential;
  without one, no call carries an \<^verbatim>\<open>Authorization\<close> header, the upload of a file
  apart.
\<close>

lemma issued_with_token:
  assumes "session_ok w" and "truthy (token w)"
  shows "\<forall>r\<in>set (issued w a). authorization r = Some (''Bearer '' @ to_string (token w))"
proof (cases a)
  case (Submit mode email pass oc)
  then show ?thesis using assms
    by (cases oc) (auto simp: issued_def handler_defs Let_def setToken_def token_effect_def
        session_ok_def)
next
  case (DoCheckout oc)
  then show ?thesis using assms
    by (cases oc; cases "items w") (auto simp: issued_def handler_defs Let_def session_ok_def)
next
  case (Login email password oc)
  then show ?thesis using assms
    by (cases oc) (auto simp: issued_def handler_defs Let_def setToken_def token_effect_def
        session_ok_def)
next
  case (Register email password oc)
  then show ?thesis using assms
    by (cases oc) (auto simp: issued_def handler_defs Let_def setToken_def token_effect_def
        session_ok_def)
next
  case (BuyNow route_id oc)
  then show ?thesis using assms
    by (cases oc) (auto simp: issued_def handler_defs Let_def session_ok_def)
qed (use assms in \<open>auto simp: issued_def handler_defs Let_def setToken_def token_effect_def
      session_ok_def\<close>)

lemma issued_without_token:
  assumes "session_ok w" and "\<not> truthy (token w)" and "\<not> is_upload a"
  shows "\<forall>r\<in>set (issued w a). authorization r = None"
proof (cases a)
  case (Submit mode email pass oc)
  then show ?thesis using assms
    by (cases oc) (auto simp: issued_def handler_defs Let_def setToken_def token_effect_def
        session_ok_def)
next
  case (Login email password oc)
  then show ?thesis using assms
    by (cases oc) (auto simp: issued_def handler_defs Let_def setToken_def token_effect_def
        session_ok_def)
next
  case (Register email password oc)
  then show ?thesis using assms
    by (cases oc) (auto simp: issued_def handler_defs Let_def setToken_def token_effect_def
        session_ok_def)
qed (use assms in \<open>auto simp: issued_def handler_defs Let_def setToken_def token_effect_def
      session_ok_def\<close>)

section \<open>Properties of the admin page\<close>

lemma int_to_string_1: "int_to_string 1 = ''1''"
  by (simp add: int_to_string_def digits.simps digit_char_def)

lemma int_to_string_7: "int_to_string 7 = ''7''"
  by (simp add: int_to_string_def digits.simps digit_char_def)

lemma create_requires_token:
  "\<not> truthy (token w) \<Longrightarrow> create w f oc = alert w (Str ''Login as admin'')"
  by (simp add: create_def)

lemma create_failure:
  assumes "truthy (token w)" and "\<not> truthy (opt_get (opt_get (caught oc) ''data'') ''id'')"
  shows "alerts (create w f oc) = alerts w @ [Str ''Create failed'']"
  using assms by (simp add: create_def Let_def alert_def axios_post_def)

lemma uploadFile_failure:
  assumes "\<not> truthy (opt_get (opt_get (caught oc) ''data'') ''filePath'')"
  shows "alerts (uploadFile w i upload oc) = alerts w @ [Str ''Upload failed'']"
  using assms by (simp add: uploadFile_def Let_def alert_def axios_post_def load_def axios_get_def)

text \<open>
  C5. The claim has no call carry the credential header once the token is absent.
  Here a visitor with a token logs out: the token, the stored token and the default
  header are gone, and the upload of a file that follows is sent with the header
  \<^verbatim>\<open>Authorization: Bearer null\<close>.
\<close>

theorem upload_after_logout_carries_authorization:
  "token (header_logout member) = Null \<and>
   localStorage_token (header_logout member) = None \<and>
   axios_authorization (header_logout member) = None \<and>
   issued (header_logout member)
     (UploadFile (Num 1) (Obj [(''name'', Str ''manual.pdf'')]) (Rejected Undefined)) =
     [\<lparr>http_method = POST, url = ''/api/admin/products/1/file'',
       body = Obj [(''file'', Obj [(''name'', Str ''manual.pdf'')])],
       authorization = Some ''Bearer null''\<rparr>,
      \<lparr>http_method = GET, url = ''/api/products'', body = Undefined, authorization = None\<rparr>]"
  by (simp add: member_eq header_logout_def logout_def setToken_def token_effect_def navigate_def
      issued_def uploadFile_def Let_def axios_post_def axios_get_def load_def alert_def caught_def
      int_to_string_1)

text \<open>
  C6. The claim has neither admin action send its POST without a token. Here the
  visitor without a token uploads a file: the POST to
  \<^verbatim>\<open>/api/admin/products/7/file\<close> is sent, with the header
  \<^verbatim>\<open>Authorization: Bearer null\<close>, and the failure shows \<^verbatim>\<open>Upload failed\<close>; the
  creation of a product by the same visitor sends nothing and shows
  \<^verbatim>\<open>Login as admin\<close>.
\<close>

theorem upload_without_token_is_sent:
  "\<not> truthy (token guest) \<and>
   sent (uploadFile guest (Num 7) (Obj [(''name'', Str ''manual.pdf'')]) (Rejected Undefined)) =
     [\<lparr>http_method = POST, url = ''/api/admin/products/7/file'',
       body = Obj [(''file'', Obj [(''name'', Str ''manual.pdf'')])],
       authorization = Some ''Bearer null''\<rparr>,
      \<lparr>http_method = GET, url = ''/api/products'', body = Undefined, authorization = None\<rparr>] \<and>
   alerts (uploadFile guest (Num 7) (Obj [(''name'', Str ''manual.pdf'')]) (Rejected Undefined))
     = [Str ''Upload failed''] \<and>
   sent (create guest
           \<lparr>form_title = ''Gamma'', form_description = ''Third'', form_price = 500,
            form_coverImageUrl = ''/gamma.png''\<rparr> (Rejected Undefined)) = [] \<and>
   alerts (create guest
           \<lparr>form_title = ''Gamma'', form_description = ''Third'', form_price = 500,
            form_coverImageUrl = ''/gamma.png''\<rparr> (Rejected Undefined)) = [Str ''Login as admin'']"
  by (simp add: guest_eq uploadFile_def create_def Let_def axios_post_def axios_get_def load_def
      alert_def caught_def int_to_string_7)

end
